theory Spec2Isabelle
  imports Main
begin

section \<open>JavaScript values, thrown values and strings\<close>

text \<open>
  The values that cross the HTTP boundary of \<^verbatim>\<open>src/services/api.ts\<close>: request payloads
  handed to \<^verbatim>\<open>JSON.stringify\<close> and the data a response's \<^verbatim>\<open>json()\<close> yields. Numbers are the
  integral ones (identifiers, dosages, status codes); an object is its list of
  properties in insertion order.
\<close>

datatype js_value =
    JUndefined
  | JNull
  | JBool bool
  | JNum int
  | JStr string
  | JArr "js_value list"
  | JObj "(string \<times> js_value) list"

text \<open>JavaScript truthiness, as the test \<^verbatim>\<open>body && ...\<close> reads it.\<close>

fun truthy :: "js_value \<Rightarrow> bool" where
  "truthy JUndefined = False"
| "truthy JNull = False"
| "truthy (JBool b) = b"
| "truthy (JNum n) = (n \<noteq> 0)"
| "truthy (JStr s) = (s \<noteq> [])"
| "truthy (JArr xs) = True"
| "truthy (JObj ps) = True"

text \<open>
  What a \<^verbatim>\<open>catch\<close> clause can receive: an \<^verbatim>\<open>Error\<close> object of some class with its
  message, or any other thrown value. \<^verbatim>\<open>TypeError\<close> and \<^verbatim>\<open>SyntaxError\<close> are subclasses
  of \<^verbatim>\<open>Error\<close>.
\<close>

datatype error_class = Error | TypeError | SyntaxError

datatype js_thrown =
    Err error_class string
  | Thrown js_value

fun instanceof_Error :: "js_thrown \<Rightarrow> bool" where
  "instanceof_Error (Err c m) = True"
| "instanceof_Error (Thrown v) = False"

fun instanceof_TypeError :: "js_thrown \<Rightarrow> bool" where
  "instanceof_TypeError (Err c m) = (c = TypeError)"
| "instanceof_TypeError (Thrown v) = False"

fun message :: "js_thrown \<Rightarrow> string" where
  "message (Err c m) = m"
| "message (Thrown v) = []"

text \<open>\<^verbatim>\<open>String.prototype.includes\<close>: the search string occurs as a contiguous run.\<close>

definition starts_with :: "string \<Rightarrow> string \<Rightarrow> bool" where
  "starts_with s searchString = (take (length searchString) s = searchString)"

primrec str_includes :: "string \<Rightarrow> string \<Rightarrow> bool" where
  "str_includes [] searchString = (searchString = [])"
| "str_includes (c # cs) searchString =
     (if starts_with (c # cs) searchString then True else str_includes cs searchString)"

text \<open>
  A template literal renders an integral number of magnitude below \<open>10\<^sup>2\<^sup>1\<close>, as every
  identifier and status code is, as its decimal numeral, with a leading minus sign
  below zero.
\<close>

definition digit_char :: "nat \<Rightarrow> char" where
  "digit_char d = ''0123456789'' ! (d mod 10)"

fun decimal :: "nat \<Rightarrow> string" where
  "decimal n = (if n < 10 then [digit_char n] else decimal (n div 10) @ [digit_char (n mod 10)])"

declare decimal.simps [simp del]

definition number_text :: "int \<Rightarrow> string" where
  "number_text n = (if n < 0 then CHR ''-'' # decimal (nat (- n)) else decimal (nat n))"

section \<open>Configuration\<close>

text \<open>
  \<^verbatim>\<open>API_CONFIG\<close>. The base URL depends on the build flag \<^verbatim>\<open>__DEV__\<close> and, in a
  development build, on what \<^verbatim>\<open>Platform.select\<close> picks for the running platform.
\<close>

datatype platform_os = Ios | Android | Other_os

definition BASE_URL :: "bool \<Rightarrow> platform_os \<Rightarrow> string" where
  "BASE_URL dev os =
     (if dev then
        (case os of
           Ios \<Rightarrow> ''http://localhost:5050/api''
         | Android \<Rightarrow> ''http://10.0.2.2:5050/api''
         | Other_os \<Rightarrow> ''http://192.168.11.58:5050/api'')
      else ''https://your-production-domain.com/api'')"

definition TIMEOUT :: nat where
  "TIMEOUT = 5000"

definition RETRY_ATTEMPTS :: int where
  "RETRY_ATTEMPTS = 2"

definition RETRY_DELAY :: nat where
  "RETRY_DELAY = 500"

section \<open>The platform: fetch, responses, timers\<close>

datatype http_method = GET | POST | PUT | DELETE | PATCH

record RequestOptions =
  opt_method :: "http_method option"
  opt_headers :: "(string \<times> string) list option"
  opt_body :: js_value
  opt_timeout :: "nat option"

record RequestInit =
  init_method :: http_method
  init_headers :: "(string \<times> string) list"
  init_body :: "string option"

text \<open>
  A response as \<^verbatim>\<open>request\<close> reads it: the \<^verbatim>\<open>ok\<close> flag, the status and status line,
  \<^verbatim>\<open>headers.get('content-type')\<close> (absent is \<open>None\<close>), and what awaiting \<^verbatim>\<open>text()\<close>
  and \<^verbatim>\<open>json()\<close> gives: either call can reject.
\<close>

record Response =
  ok :: bool
  status :: int
  statusText :: string
  content_type :: "string option"
  body_text :: "js_thrown + string"
  body_json :: "js_thrown + js_value"

text \<open>
  A promise is observed only through \<^verbatim>\<open>Promise.race\<close> against a timer: for a timer of
  \<open>ms\<close> milliseconds it either settles first (fulfilled or rejected) or the timer
  fires first.
\<close>

datatype 'a raced = Settled "js_thrown + 'a" | Timer_fired

type_synonym 'a promise = "nat \<Rightarrow> 'a raced"

text \<open>
  The host environment: \<^verbatim>\<open>JSON.stringify\<close>, and \<^verbatim>\<open>fetch\<close>, whose answer may depend on
  how many calls were made before, on the URL and on the request.
\<close>

record platform =
  JSON_stringify :: "js_value \<Rightarrow> string"
  fetch :: "nat \<Rightarrow> string \<Rightarrow> RequestInit \<Rightarrow> Response promise"

text \<open>
  The observable effects of a call: the requests handed to \<^verbatim>\<open>fetch\<close>, in order, and
  the milliseconds spent waiting between retries. Console output is diagnostic only
  and is left out.
\<close>

record world =
  sent :: "(string \<times> RequestInit) list"
  waited :: nat

definition fetch_call ::
  "platform \<Rightarrow> string \<Rightarrow> RequestInit \<Rightarrow> world \<Rightarrow> Response promise \<times> world" where
  "fetch_call pf url config w =
     (fetch pf (length (sent w)) url config, w\<lparr>sent := sent w @ [(url, config)]\<rparr>)"

section \<open>ApiService: timeout and retry helpers\<close>

record ApiService =
  baseURL :: string
  defaultHeaders :: "(string \<times> string) list"

definition new_ApiService :: "bool \<Rightarrow> platform_os \<Rightarrow> ApiService" where
  "new_ApiService dev os =
     \<lparr>baseURL = BASE_URL dev os,
      defaultHeaders =
        [(''Content-Type'', ''application/json''), (''Accept'', ''application/json'')]\<rparr>"

definition withTimeout :: "'a promise \<Rightarrow> nat \<Rightarrow> js_thrown + 'a" where
  "withTimeout promise timeoutMs =
     (case promise timeoutMs of
        Settled r \<Rightarrow> r
      | Timer_fired \<Rightarrow> Inl (Err Error ''Request timeout''))"

function withRetry ::
  "(world \<Rightarrow> (js_thrown + 'a) \<times> world) \<Rightarrow> int \<Rightarrow> world \<Rightarrow> (js_thrown + 'a) \<times> world" where
  "withRetry operation attempts w =
     (case operation w of
        (Inr v, w') \<Rightarrow> (Inr v, w')
      | (Inl error, w') \<Rightarrow>
          if attempts > 1
          then withRetry operation (attempts - 1) (w'\<lparr>waited := waited w' + RETRY_DELAY\<rparr>)
          else (Inl error, w'))"
  by pat_completeness auto
termination
  by (relation "measure (\<lambda>(operation, attempts, w). nat attempts)") auto

declare withRetry.simps [simp del]

section \<open>ApiService: the request method\<close>

text \<open>
  Object spread \<^verbatim>\<open>{...a, ...b}\<close> on property lists: a key already present keeps its
  place and takes the later value, a new key is appended.
\<close>

fun set_property :: "string \<Rightarrow> 'v \<Rightarrow> (string \<times> 'v) list \<Rightarrow> (string \<times> 'v) list" where
  "set_property k v [] = [(k, v)]"
| "set_property k v ((k', v') # ps) =
     (if k' = k then (k, v) # ps else (k', v') # set_property k v ps)"

definition spread :: "(string \<times> 'v) list \<Rightarrow> (string \<times> 'v) list \<Rightarrow> (string \<times> 'v) list" where
  "spread base extra = foldl (\<lambda>acc (k, v). set_property k v acc) base extra"

text \<open>The constants \<^verbatim>\<open>url\<close> and \<^verbatim>\<open>config\<close> that \<^verbatim>\<open>request\<close> builds before the call.\<close>

definition request_url :: "ApiService \<Rightarrow> string \<Rightarrow> string" where
  "request_url this endpoint = baseURL this @ endpoint"

definition request_config :: "platform \<Rightarrow> ApiService \<Rightarrow> RequestOptions \<Rightarrow> RequestInit" where
  "request_config pf this options =
     (let method = (case opt_method options of None \<Rightarrow> GET | Some m \<Rightarrow> m);
          headers = (case opt_headers options of None \<Rightarrow> [] | Some h \<Rightarrow> h);
          body = opt_body options
      in \<lparr>init_method = method,
          init_headers = spread (defaultHeaders this) headers,
          init_body =
            (if truthy body \<and> method \<noteq> GET then Some (JSON_stringify pf body) else None)\<rparr>)"

definition request_timeout :: "RequestOptions \<Rightarrow> nat" where
  "request_timeout options = (case opt_timeout options of None \<Rightarrow> TIMEOUT | Some t \<Rightarrow> t)"

text \<open>The operation handed to \<^verbatim>\<open>withRetry\<close>: one \<^verbatim>\<open>fetch\<close> raced against the timer.\<close>

definition timed_fetch ::
  "platform \<Rightarrow> string \<Rightarrow> RequestInit \<Rightarrow> nat \<Rightarrow> world \<Rightarrow> (js_thrown + Response) \<times> world" where
  "timed_fetch pf url config timeout w =
     (case fetch_call pf url config w of
        (promise, w') \<Rightarrow> (withTimeout promise timeout, w'))"

text \<open>
  The rest of the \<^verbatim>\<open>try\<close> block, once a response has arrived: the status check, the
  content-type check and the JSON body.
\<close>

definition read_response :: "Response \<Rightarrow> js_thrown + js_value" where
  "read_response response =
     (if \<not> ok response then
        (case body_text response of
           Inl error \<Rightarrow> Inl error
         | Inr errorText \<Rightarrow>
             Inl (Err Error
               (''HTTP '' @ number_text (status response) @ '': '' @
                 (if errorText = [] then statusText response else errorText))))
      else
        (case content_type response of
           None \<Rightarrow> Inr (JObj [])
         | Some contentType \<Rightarrow>
             if contentType = [] then Inr (JObj [])
             else if str_includes contentType ''application/json'' then body_json response
             else Inr (JObj [])))"

text \<open>The \<^verbatim>\<open>catch\<close> block: what is thrown to the caller for a caught value.\<close>

definition request_catch :: "js_thrown \<Rightarrow> js_thrown" where
  "request_catch error =
     (if instanceof_TypeError error \<and> str_includes (message error) ''Network request failed''
      then Err Error ''Unable to connect to server. Please check your connection.''
      else if instanceof_Error error \<and> str_includes (message error) ''timeout''
      then Err Error ''Request timed out. Please try again.''
      else error)"

text \<open>
  \<^verbatim>\<open>request\<close>: the \<^verbatim>\<open>try\<close> block (the retried, timed \<^verbatim>\<open>fetch\<close>, then the reading of
  the response) and the \<^verbatim>\<open>catch\<close> block around all of it, so an error raised while
  reading the response passes through \<^verbatim>\<open>request_catch\<close> as well.
\<close>

definition request_try ::
  "platform \<Rightarrow> ApiService \<Rightarrow> string \<Rightarrow> RequestOptions \<Rightarrow> world \<Rightarrow> (js_thrown + js_value) \<times> world" where
  "request_try pf this endpoint options w =
     (let timeout = request_timeout options;
          url = request_url this endpoint;
          config = request_config pf this options
      in case withRetry (timed_fetch pf url config timeout) RETRY_ATTEMPTS w of
           (Inl error, w') \<Rightarrow> (Inl error, w')
         | (Inr response, w') \<Rightarrow> (read_response response, w'))"

definition request ::
  "platform \<Rightarrow> ApiService \<Rightarrow> string \<Rightarrow> RequestOptions \<Rightarrow> world \<Rightarrow> (js_thrown + js_value) \<times> world" where
  "request pf this endpoint options w =
     (case request_try pf this endpoint options w of
        (Inl error, w') \<Rightarrow> (Inl (request_catch error), w')
      | (Inr data, w') \<Rightarrow> (Inr data, w'))"

section \<open>ApiService: HTTP methods and endpoints\<close>

definition get :: "platform \<Rightarrow> ApiService \<Rightarrow> string \<Rightarrow> world \<Rightarrow> (js_thrown + js_value) \<times> world" where
  "get pf this endpoint =
     request pf this endpoint
       \<lparr>opt_method = Some GET, opt_headers = None, opt_body = JUndefined, opt_timeout = None\<rparr>"

definition post ::
  "platform \<Rightarrow> ApiService \<Rightarrow> string \<Rightarrow> js_value \<Rightarrow> world \<Rightarrow> (js_thrown + js_value) \<times> world" where
  "post pf this endpoint data =
     request pf this endpoint
       \<lparr>opt_method = Some POST, opt_headers = None, opt_body = data, opt_timeout = None\<rparr>"

definition put ::
  "platform \<Rightarrow> ApiService \<Rightarrow> string \<Rightarrow> js_value \<Rightarrow> world \<Rightarrow> (js_thrown + js_value) \<times> world" where
  "put pf this endpoint data =
     request pf this endpoint
       \<lparr>opt_method = Some PUT, opt_headers = None, opt_body = data, opt_timeout = None\<rparr>"

definition patch ::
  "platform \<Rightarrow> ApiService \<Rightarrow> string \<Rightarrow> js_value \<Rightarrow> world \<Rightarrow> (js_thrown + js_value) \<times> world" where
  "patch pf this endpoint data =
     request pf this endpoint
       \<lparr>opt_method = Some PATCH, opt_headers = None, opt_body = data, opt_timeout = None\<rparr>"

definition delete :: "platform \<Rightarrow> ApiService \<Rightarrow> string \<Rightarrow> world \<Rightarrow> (js_thrown + js_value) \<times> world" where
  "delete pf this endpoint =
     request pf this endpoint
       \<lparr>opt_method = Some DELETE, opt_headers = None, opt_body = JUndefined, opt_timeout = None\<rparr>"

definition getSymptoms :: "platform \<Rightarrow> ApiService \<Rightarrow> world \<Rightarrow> (js_thrown + js_value) \<times> world" where
  "getSymptoms pf this = get pf this ''/symptoms''"

definition getSymptom :: "platform \<Rightarrow> ApiService \<Rightarrow> int \<Rightarrow> world \<Rightarrow> (js_thrown + js_value) \<times> world" where
  "getSymptom pf this ident = get pf this (''/symptoms/'' @ number_text ident)"

definition createSymptom ::
  "platform \<Rightarrow> ApiService \<Rightarrow> js_value \<Rightarrow> world \<Rightarrow> (js_thrown + js_value) \<times> world" where
  "createSymptom pf this symptom = post pf this ''/symptoms'' symptom"

definition updateSymptom ::
  "platform \<Rightarrow> ApiService \<Rightarrow> int \<Rightarrow> js_value \<Rightarrow> world \<Rightarrow> (js_thrown + js_value) \<times> world" where
  "updateSymptom pf this ident symptom = put pf this (''/symptoms/'' @ number_text ident) symptom"

definition deleteSymptom :: "platform \<Rightarrow> ApiService \<Rightarrow> int \<Rightarrow> world \<Rightarrow> (js_thrown + js_value) \<times> world" where
  "deleteSymptom pf this ident = delete pf this (''/symptoms/'' @ number_text ident)"

definition getMedicationsByStage ::
  "platform \<Rightarrow> ApiService \<Rightarrow> int \<Rightarrow> world \<Rightarrow> (js_thrown + js_value) \<times> world" where
  "getMedicationsByStage pf this stageId = get pf this (''/Medication/stage/'' @ number_text stageId)"

definition getMedication :: "platform \<Rightarrow> ApiService \<Rightarrow> int \<Rightarrow> world \<Rightarrow> (js_thrown + js_value) \<times> world" where
  "getMedication pf this ident = get pf this (''/Medication/'' @ number_text ident)"

definition createMedication ::
  "platform \<Rightarrow> ApiService \<Rightarrow> js_value \<Rightarrow> world \<Rightarrow> (js_thrown + js_value) \<times> world" where
  "createMedication pf this medication = post pf this ''/Medication'' medication"

definition updateMedication ::
  "platform \<Rightarrow> ApiService \<Rightarrow> int \<Rightarrow> js_value \<Rightarrow> world \<Rightarrow> (js_thrown + js_value) \<times> world" where
  "updateMedication pf this ident medication =
     put pf this (''/Medication/'' @ number_text ident) medication"

definition deleteMedication ::
  "platform \<Rightarrow> ApiService \<Rightarrow> int \<Rightarrow> world \<Rightarrow> (js_thrown + js_value) \<times> world" where
  "deleteMedication pf this ident = delete pf this (''/Medication/'' @ number_text ident)"

definition createStage ::
  "platform \<Rightarrow> ApiService \<Rightarrow> js_value \<Rightarrow> world \<Rightarrow> (js_thrown + js_value) \<times> world" where
  "createStage pf this stage = post pf this ''/stages'' stage"

definition updateStage ::
  "platform \<Rightarrow> ApiService \<Rightarrow> int \<Rightarrow> js_value \<Rightarrow> world \<Rightarrow> (js_thrown + js_value) \<times> world" where
  "updateStage pf this ident stage = put pf this (''/stages/'' @ number_text ident) stage"

definition deleteStage :: "platform \<Rightarrow> ApiService \<Rightarrow> int \<Rightarrow> world \<Rightarrow> (js_thrown + js_value) \<times> world" where
  "deleteStage pf this ident = delete pf this (''/stages/'' @ number_text ident)"

definition createIntake ::
  "platform \<Rightarrow> ApiService \<Rightarrow> js_value \<Rightarrow> world \<Rightarrow> (js_thrown + js_value) \<times> world" where
  "createIntake pf this intake = post pf this ''/intakes'' intake"

definition updateIntake ::
  "platform \<Rightarrow> ApiService \<Rightarrow> int \<Rightarrow> js_value \<Rightarrow> world \<Rightarrow> (js_thrown + js_value) \<times> world" where
  "updateIntake pf this ident intake = put pf this (''/intakes/'' @ number_text ident) intake"

definition deleteIntake :: "platform \<Rightarrow> ApiService \<Rightarrow> int \<Rightarrow> world \<Rightarrow> (js_thrown + js_value) \<times> world" where
  "deleteIntake pf this ident = delete pf this (''/intakes/'' @ number_text ident)"

text \<open>
  \<^verbatim>\<open>healthCheck\<close> is an async function like the others, so its result is again a
  rejection or a value; the \<^verbatim>\<open>catch\<close> clause turns every rejection of the read into
  \<^verbatim>\<open>false\<close>.
\<close>

definition healthCheck :: "platform \<Rightarrow> ApiService \<Rightarrow> world \<Rightarrow> (js_thrown + bool) \<times> world" where
  "healthCheck pf this w =
     (case get pf this ''/symptoms'' w of
        (Inr v, w') \<Rightarrow> (Inr True, w')
      | (Inl error, w') \<Rightarrow> (Inr False, w'))"

text \<open>The exported singleton, for a given build and platform.\<close>

definition apiService :: "bool \<Rightarrow> platform_os \<Rightarrow> ApiService" where
  "apiService dev os = new_ApiService dev os"

section \<open>Domain records and the home screen's toggle handler\<close>

text \<open>
  The interfaces \<^verbatim>\<open>Intake\<close>, \<^verbatim>\<open>Medication\<close>, \<^verbatim>\<open>Stage\<close> and \<^verbatim>\<open>Symptom\<close> of
  \<^verbatim>\<open>api.ts\<close>; a field of type \<^verbatim>\<open>T | null\<close> is an option. Field names shared by two
  interfaces carry the interface's name.
\<close>

record Intake =
  intake_id :: int
  medicationId :: int
  scheduledTime :: string
  actualTime :: string
  intake_medication :: string

record Medication =
  medication_id :: int
  medication_name :: string
  intervalHours :: int
  totalDays :: int
  quantityMg :: int
  treatmentId :: "int option"
  stageId :: int
  stage :: "string option"
  intakes :: "Intake list option"

record Stage =
  stage_id :: int
  stage_name :: string
  stage_symptomId :: int
  symptom :: string
  medication :: "Medication list"

record Symptom =
  symptom_id :: int
  symptom_name :: string
  isActive :: bool
  stages :: "Stage list"

text \<open>The same objects as JavaScript values, properties in the interfaces' order.\<close>

definition js_of_Intake :: "Intake \<Rightarrow> js_value" where
  "js_of_Intake i =
     JObj [(''id'', JNum (intake_id i)),
           (''medicationId'', JNum (medicationId i)),
           (''scheduledTime'', JStr (scheduledTime i)),
           (''actualTime'', JStr (actualTime i)),
           (''medication'', JStr (intake_medication i))]"

definition js_of_Medication :: "Medication \<Rightarrow> js_value" where
  "js_of_Medication m =
     JObj [(''id'', JNum (medication_id m)),
           (''name'', JStr (medication_name m)),
           (''intervalHours'', JNum (intervalHours m)),
           (''totalDays'', JNum (totalDays m)),
           (''quantityMg'', JNum (quantityMg m)),
           (''treatmentId'', (case treatmentId m of None \<Rightarrow> JNull | Some t \<Rightarrow> JNum t)),
           (''stageId'', JNum (stageId m)),
           (''stage'', (case stage m of None \<Rightarrow> JNull | Some s \<Rightarrow> JStr s)),
           (''intakes'',
              (case intakes m of None \<Rightarrow> JNull | Some is \<Rightarrow> JArr (map js_of_Intake is)))]"

definition js_of_Stage :: "Stage \<Rightarrow> js_value" where
  "js_of_Stage s =
     JObj [(''id'', JNum (stage_id s)),
           (''name'', JStr (stage_name s)),
           (''symptomId'', JNum (stage_symptomId s)),
           (''symptom'', JStr (symptom s)),
           (''medication'', JArr (map js_of_Medication (medication s)))]"

definition js_of_Symptom :: "Symptom \<Rightarrow> js_value" where
  "js_of_Symptom s =
     JObj [(''id'', JNum (symptom_id s)),
           (''name'', JStr (symptom_name s)),
           (''isActive'', JBool (isActive s)),
           (''stages'', JArr (map js_of_Stage (stages s)))]"

text \<open>
  The home screen's state that \<^verbatim>\<open>handleToggleActive\<close> touches: the \<^verbatim>\<open>symptoms\<close> list
  and the alerts shown. The handler reads the \<^verbatim>\<open>symptoms\<close> of the render it was
  created in; each \<^verbatim>\<open>setSymptoms\<close> replaces the list, and the last one stands.
\<close>

record HomeScreen =
  symptoms :: "Symptom list"
  alerts :: "(string \<times> string) list"

definition handleToggleActive ::
  "platform \<Rightarrow> ApiService \<Rightarrow> HomeScreen \<Rightarrow> int \<Rightarrow> bool \<Rightarrow> world \<Rightarrow> HomeScreen \<times> world" where
  "handleToggleActive pf this screen symptomId value w =
     (case find (\<lambda>s. symptom_id s = symptomId) (symptoms screen) of
        None \<Rightarrow> (screen, w)
      | Some symptomToUpdate \<Rightarrow>
          (let updatedSymptoms =
                 map (\<lambda>symptom. if symptom_id symptom = symptomId
                                then symptom\<lparr>isActive := value\<rparr> else symptom)
                   (symptoms screen);
               revertedSymptoms =
                 map (\<lambda>symptom. if symptom_id symptom = symptomId
                                then symptom\<lparr>isActive := \<not> value\<rparr> else symptom)
                   (symptoms screen)
           in case updateSymptom pf this symptomId
                     (js_of_Symptom (symptomToUpdate\<lparr>isActive := value\<rparr>)) w of
                (Inr v, w') \<Rightarrow> (screen\<lparr>symptoms := updatedSymptoms\<rparr>, w')
              | (Inl err, w') \<Rightarrow>
                  (screen\<lparr>symptoms := revertedSymptoms,
                          alerts := alerts screen @
                            [(''Error'', ''Failed to update symptom. Please try again.'')]\<rparr>,
                   w')))"

section \<open>Example environments\<close>

text \<open>
  A compact JSON text for a value, standing in for \<^verbatim>\<open>JSON.stringify\<close> in the example
  environments below: properties whose value is \<^verbatim>\<open>undefined\<close> are dropped, and
  \<^verbatim>\<open>undefined\<close> inside an array is written \<^verbatim>\<open>null\<close>. Strings are quoted with the quote
  and the backslash escaped.
\<close>

definition quote_char :: char where
  "quote_char = CHR 0x22"

definition json_string :: "string \<Rightarrow> string" where
  "json_string s =
     quote_char #
       concat (map (\<lambda>c. if c = quote_char \<or> c = CHR 0x5C then [CHR 0x5C, c] else [c]) s) @
     [quote_char]"

fun join :: "string \<Rightarrow> string list \<Rightarrow> string" where
  "join sep [] = []"
| "join sep [x] = x"
| "join sep (x # y # ys) = x @ sep @ join sep (y # ys)"

fun compact_json :: "js_value \<Rightarrow> string" where
  "compact_json JUndefined = ''null''"
| "compact_json JNull = ''null''"
| "compact_json (JBool b) = (if b then ''true'' else ''false'')"
| "compact_json (JNum n) = number_text n"
| "compact_json (JStr s) = json_string s"
| "compact_json (JArr xs) = ''['' @ join '','' (map compact_json xs) @ '']''"
| "compact_json (JObj ps) =
     ''{'' @
       join '',''
         (map (\<lambda>p. json_string (fst p) @ '':'' @ compact_json (snd p))
            (filter (\<lambda>p. snd p \<noteq> JUndefined) ps)) @
     ''}''"

text \<open>
  An environment given by a script: the \<open>k\<close>-th call of \<^verbatim>\<open>fetch\<close> has the \<open>k\<close>-th
  outcome of the list, and a call beyond the script never settles.
\<close>

definition scripted :: "Response raced list \<Rightarrow> platform" where
  "scripted outcomes =
     \<lparr>JSON_stringify = compact_json,
      fetch = (\<lambda>k url config ms. if k < length outcomes then outcomes ! k else Timer_fired)\<rparr>"

definition fresh_world :: world where
  "fresh_world = \<lparr>sent = [], waited = 0\<rparr>"

definition network_down :: "Response raced" where
  "network_down = Settled (Inl (Err TypeError ''Network request failed''))"

definition json_response :: "int \<Rightarrow> js_value \<Rightarrow> Response" where
  "json_response code data =
     \<lparr>ok = True, status = code, statusText = ''OK'',
      content_type = Some ''application/json; charset=utf-8'',
      body_text = Inr (compact_json data), body_json = Inr data\<rparr>"

definition no_content_response :: Response where
  "no_content_response =
     \<lparr>ok = True, status = 204, statusText = ''No Content'', content_type = None,
      body_text = Inr [], body_json = Inl (Err SyntaxError ''JSON Parse error: Unexpected end of input'')\<rparr>"

definition error_response :: "int \<Rightarrow> string \<Rightarrow> Response" where
  "error_response code errorText =
     \<lparr>ok = False, status = code, statusText = [], content_type = Some ''text/plain'',
      body_text = Inr errorText,
      body_json = Inl (Err SyntaxError ''JSON Parse error: Unexpected identifier'')\<rparr>"

definition migraine_fields :: "(string \<times> js_value) list" where
  "migraine_fields =
     [(''name'', JStr ''Migraine''),
      (''isActive'', JBool True),
      (''stages'',
         JArr [JObj [(''name'', JStr ''Severe''),
                     (''medication'',
                        JArr [JObj [(''name'', JStr ''Ibuprofen''),
                                    (''quantityMg'', JNum 400),
                                    (''intervalHours'', JNum 8),
                                    (''totalDays'', JNum 5)]])]])]"

definition migraine_payload :: js_value where
  "migraine_payload = JObj migraine_fields"

definition created_migraine :: js_value where
  "created_migraine = JObj ((''id'', JNum 7) # migraine_fields)"

definition active_migraine :: Symptom where
  "active_migraine =
     \<lparr>symptom_id = 1, symptom_name = ''Migraine'', isActive = True, stages = []\<rparr>"

definition resting_cough :: Symptom where
  "resting_cough =
     \<lparr>symptom_id = 2, symptom_name = ''Cough'', isActive = False, stages = []\<rparr>"

section \<open>Notions used in the statements\<close>

text \<open>
  What the \<open>k\<close>-th call of \<^verbatim>\<open>fetch\<close> yields for a given request once it is raced
  against the request's timer: the operand of \<^verbatim>\<open>withRetry\<close> at that call.
\<close>

definition attempt ::
  "platform \<Rightarrow> ApiService \<Rightarrow> string \<Rightarrow> RequestOptions \<Rightarrow> nat \<Rightarrow> js_thrown + Response" where
  "attempt pf this endpoint options k =
     withTimeout (fetch pf k (request_url this endpoint) (request_config pf this options))
       (request_timeout options)"

text \<open>
  The request a create or update call is expected to issue, in the words of the
  specification: the method, the path under the base URL, the default headers, and as
  body the JSON serialization of the typed input, nothing else.
\<close>

definition expected_request ::
  "platform \<Rightarrow> ApiService \<Rightarrow> http_method \<Rightarrow> string \<Rightarrow> js_value \<Rightarrow> string \<times> RequestInit" where
  "expected_request pf this m path input =
     (baseURL this @ path,
      \<lparr>init_method = m, init_headers = defaultHeaders this,
       init_body = Some (JSON_stringify pf input)\<rparr>)"

text \<open>The requests handed to \<^verbatim>\<open>fetch\<close> between an earlier and a later world.\<close>

definition requests_issued :: "world \<Rightarrow> world \<Rightarrow> (string \<times> RequestInit) list" where
  "requests_issued w w' = drop (length (sent w)) (sent w')"

section \<open>Strings and the retry helper\<close>

lemma starts_with_iff: "starts_with s p \<longleftrightarrow> (\<exists>post. s = p @ post)"
  unfolding starts_with_def
  by (metis append_eq_conv_conj append_take_drop_id)

lemma str_includes_iff: "str_includes s p \<longleftrightarrow> (\<exists>pre post. s = pre @ p @ post)"
proof (induction s)
  case Nil
  then show ?case by simp
next
  case (Cons c cs)
  show ?case
  proof
    assume "str_includes (c # cs) p"
    then consider "starts_with (c # cs) p" | "str_includes cs p"
      by (auto split: if_splits)
    then show "\<exists>pre post. c # cs = pre @ p @ post"
    proof cases
      case 1
      then obtain post where "c # cs = p @ post" by (auto simp: starts_with_iff)
      then have "c # cs = [] @ p @ post" by simp
      then show ?thesis by blast
    next
      case 2
      then obtain pre post where "cs = pre @ p @ post" using Cons.IH by blast
      then have "c # cs = (c # pre) @ p @ post" by simp
      then show ?thesis by blast
    qed
  next
    assume "\<exists>pre post. c # cs = pre @ p @ post"
    then obtain pre post where eq: "c # cs = pre @ p @ post" by blast
    show "str_includes (c # cs) p"
    proof (cases pre)
      case Nil
      then have "starts_with (c # cs) p" using eq by (auto simp: starts_with_iff)
      then show ?thesis by simp
    next
      case (Cons a pre')
      then have "cs = pre' @ p @ post" using eq by simp
      then have "str_includes cs p" using Cons.IH by blast
      then show ?thesis by simp
    qed
  qed
qed

lemma withRetry_ok:
  "operation w = (Inr v, w') \<Longrightarrow> withRetry operation attempts w = (Inr v, w')"
  by (simp add: withRetry.simps)

lemma withRetry_again:
  "operation w = (Inl e, w') \<Longrightarrow> attempts > 1 \<Longrightarrow>
   withRetry operation attempts w =
     withRetry operation (attempts - 1) (w'\<lparr>waited := waited w' + RETRY_DELAY\<rparr>)"
  by (subst withRetry.simps) simp

lemma withRetry_last:
  "operation w = (Inl e, w') \<Longrightarrow> \<not> attempts > 1 \<Longrightarrow>
   withRetry operation attempts w = (Inl e, w')"
  by (subst withRetry.simps) simp

lemma timed_fetch_eq:
  "timed_fetch pf url config ms w =
     (withTimeout (fetch pf (length (sent w)) url config) ms,
      w\<lparr>sent := sent w @ [(url, config)]\<rparr>)"
  by (simp add: timed_fetch_def fetch_call_def)


lemma withRetry_all_fail_Suc:
  assumes fails: "\<And>k. withTimeout (fetch pf k url config) ms = Inl (err k)"
  shows "withRetry (timed_fetch pf url config ms) (int (Suc j)) w =
           (Inl (err (length (sent w) + j)),
            w\<lparr>sent := sent w @ replicate (Suc j) (url, config),
              waited := waited w + j * RETRY_DELAY\<rparr>)"
proof (induction j arbitrary: w)
  case 0
  have step: "timed_fetch pf url config ms w =
      (Inl (err (length (sent w))), w\<lparr>sent := sent w @ [(url, config)]\<rparr>)"
    by (simp add: timed_fetch_eq fails)
  have last: "\<not> int (Suc 0) > 1" by simp
  have "withRetry (timed_fetch pf url config ms) (int (Suc 0)) w =
      (Inl (err (length (sent w))), w\<lparr>sent := sent w @ [(url, config)]\<rparr>)"
    using step last by (rule withRetry_last)
  then show ?case by simp
next
  case (Suc j)
  let ?w1 = "w\<lparr>sent := sent w @ [(url, config)]\<rparr>"
  have step: "timed_fetch pf url config ms w = (Inl (err (length (sent w))), ?w1)"
    by (simp add: timed_fetch_eq fails)
  have more: "int (Suc (Suc j)) > 1" by simp
  have pred: "int (Suc (Suc j)) - 1 = int (Suc j)" by simp
  have "withRetry (timed_fetch pf url config ms) (int (Suc (Suc j))) w =
      withRetry (timed_fetch pf url config ms) (int (Suc (Suc j)) - 1)
        (?w1\<lparr>waited := waited ?w1 + RETRY_DELAY\<rparr>)"
    using step more by (rule withRetry_again)
  also have "\<dots> = withRetry (timed_fetch pf url config ms) (int (Suc j))
        (?w1\<lparr>waited := waited ?w1 + RETRY_DELAY\<rparr>)"
    by (simp only: pred)
  also have "\<dots> = (Inl (err (length (sent w) + Suc j)),
            w\<lparr>sent := sent w @ replicate (Suc (Suc j)) (url, config),
              waited := waited w + Suc j * RETRY_DELAY\<rparr>)"
    unfolding Suc.IH by (simp add: replicate_app_Cons_same)
  finally show ?case .
qed

lemma withRetry_all_fail:
  assumes fails: "\<And>k. withTimeout (fetch pf k url config) ms = Inl (err k)"
  shows "withRetry (timed_fetch pf url config ms) n w =
           (Inl (err (length (sent w) + (nat (max 1 n) - 1))),
            w\<lparr>sent := sent w @ replicate (nat (max 1 n)) (url, config),
              waited := waited w + (nat (max 1 n) - 1) * RETRY_DELAY\<rparr>)"
proof (cases "n > 1")
  case True
  then obtain j where n: "n = int (Suc j)"
    by (metis Suc_pred' int_nat_eq less_imp_le order_less_trans zero_less_nat_eq zero_less_one)
  have m: "nat (max 1 (int (Suc j))) = Suc j" by simp
  show ?thesis
    unfolding n m withRetry_all_fail_Suc [of pf url config ms err, OF fails] by simp
next
  case False
  then have one: "nat (max 1 n) = 1" by simp
  have step: "timed_fetch pf url config ms w =
      (Inl (err (length (sent w))), w\<lparr>sent := sent w @ [(url, config)]\<rparr>)"
    by (simp add: timed_fetch_eq fails)
  have "withRetry (timed_fetch pf url config ms) n w =
      (Inl (err (length (sent w))), w\<lparr>sent := sent w @ [(url, config)]\<rparr>)"
    using step False by (rule withRetry_last)
  then show ?thesis by (simp add: one)
qed

lemma withRetry_default:
  "withRetry (timed_fetch pf url config ms) RETRY_ATTEMPTS w =
     (case withTimeout (fetch pf (length (sent w)) url config) ms of
        Inr r \<Rightarrow> (Inr r, w\<lparr>sent := sent w @ [(url, config)]\<rparr>)
      | Inl e \<Rightarrow>
          (withTimeout (fetch pf (Suc (length (sent w))) url config) ms,
           w\<lparr>sent := sent w @ [(url, config), (url, config)],
             waited := waited w + RETRY_DELAY\<rparr>))"
proof (cases "withTimeout (fetch pf (length (sent w)) url config) ms")
  case (Inr r)
  then have "timed_fetch pf url config ms w = (Inr r, w\<lparr>sent := sent w @ [(url, config)]\<rparr>)"
    by (simp add: timed_fetch_eq)
  then have "withRetry (timed_fetch pf url config ms) RETRY_ATTEMPTS w =
      (Inr r, w\<lparr>sent := sent w @ [(url, config)]\<rparr>)"
    by (rule withRetry_ok)
  then show ?thesis by (simp add: Inr)
next
  case (Inl e)
  let ?w1 = "w\<lparr>sent := sent w @ [(url, config)]\<rparr>"
  let ?w2 = "?w1\<lparr>waited := waited ?w1 + RETRY_DELAY\<rparr>"
  have step: "timed_fetch pf url config ms w = (Inl e, ?w1)"
    by (simp add: timed_fetch_eq Inl)
  have more: "RETRY_ATTEMPTS > 1" by (simp add: RETRY_ATTEMPTS_def)
  have first: "withRetry (timed_fetch pf url config ms) RETRY_ATTEMPTS w =
      withRetry (timed_fetch pf url config ms) (RETRY_ATTEMPTS - 1) ?w2"
    using step more by (rule withRetry_again)
  have last: "\<not> RETRY_ATTEMPTS - 1 > 1" by (simp add: RETRY_ATTEMPTS_def)
  have second: "withRetry (timed_fetch pf url config ms) (RETRY_ATTEMPTS - 1) ?w2 =
      (withTimeout (fetch pf (Suc (length (sent w))) url config) ms,
       ?w2\<lparr>sent := sent ?w2 @ [(url, config)]\<rparr>)"
  proof (cases "withTimeout (fetch pf (Suc (length (sent w))) url config) ms")
    case (Inl e2)
    then have "timed_fetch pf url config ms ?w2 = (Inl e2, ?w2\<lparr>sent := sent ?w2 @ [(url, config)]\<rparr>)"
      by (simp add: timed_fetch_eq)
    then show ?thesis
      unfolding Inl using last by (rule withRetry_last)
  next
    case (Inr r)
    then have "timed_fetch pf url config ms ?w2 = (Inr r, ?w2\<lparr>sent := sent ?w2 @ [(url, config)]\<rparr>)"
      by (simp add: timed_fetch_eq)
    then show ?thesis
      unfolding Inr by (rule withRetry_ok)
  qed
  show ?thesis
    unfolding first second by (simp add: Inl)
qed

lemma request_eq:
  "request pf this endpoint options w =
     (let rq = (request_url this endpoint, request_config pf this options) in
      case attempt pf this endpoint options (length (sent w)) of
        Inr r \<Rightarrow> (map_sum request_catch id (read_response r), w\<lparr>sent := sent w @ [rq]\<rparr>)
      | Inl e \<Rightarrow>
          (case attempt pf this endpoint options (Suc (length (sent w))) of
             Inr r \<Rightarrow> map_sum request_catch id (read_response r)
           | Inl e2 \<Rightarrow> Inl (request_catch e2),
           w\<lparr>sent := sent w @ [rq, rq], waited := waited w + RETRY_DELAY\<rparr>))"
  by (simp add: request_def request_try_def withRetry_default attempt_def Let_def
      split: sum.splits)

lemmas example_defs =
  scripted_def fresh_world_def network_down_def json_response_def no_content_response_def
  error_response_def apiService_def new_ApiService_def BASE_URL_def

lemmas call_defs =
  request_url_def request_config_def request_timeout_def spread_def attempt_def
  withTimeout_def

lemmas text_defs =
  number_text_def decimal.simps digit_char_def starts_with_def

section \<open>Retry budget\<close>

lemma scripted_all_down:
  "attempt (scripted [network_down, network_down, network_down]) this endpoint options k =
     Inl (if k < 3 then Err TypeError ''Network request failed'' else Err Error ''Request timeout'')"
  by (simp add: attempt_def withTimeout_def scripted_def network_down_def nth_Cons'
      split: nat.splits)

text \<open>
  C1, as stated: with the default configuration the timed call would run three times
  before the client gives up. It does not: \<^verbatim>\<open>withRetry\<close> starts from
  \<^verbatim>\<open>RETRY_ATTEMPTS = 2\<close> and retries only while \<^verbatim>\<open>attempts > 1\<close>, so when the server
  cannot be reached at all, \<^verbatim>\<open>getSymptoms\<close> hands exactly two requests to \<^verbatim>\<open>fetch\<close>.
\<close>

theorem three_attempts_counterexample:
  "length (sent (snd (getSymptoms (scripted [network_down, network_down, network_down])
      (apiService True Ios) fresh_world))) = 2
   \<and> length (sent (snd (getSymptoms (scripted [network_down, network_down, network_down])
      (apiService True Ios) fresh_world))) \<noteq> 3"
  by (simp add: getSymptoms_def get_def request_eq scripted_all_down fresh_world_def Let_def)

text \<open>
  C1, amended: when every attempt of a request fails, \<^verbatim>\<open>withRetry\<close> gives up with the
  error of the last attempt it made, which is the second one: under the default
  configuration (\<^verbatim>\<open>RETRY_ATTEMPTS = 2\<close>) the timed call is executed two times in total,
  with one retry delay in between. \<^verbatim>\<open>request\<close> then throws what its \<^verbatim>\<open>catch\<close> block
  makes of that last error.
\<close>

theorem request_fails_on_every_attempt:
  assumes fails: "\<And>k. attempt pf this endpoint options k = Inl (err k)"
  shows "withRetry
           (timed_fetch pf (request_url this endpoint) (request_config pf this options)
              (request_timeout options))
           RETRY_ATTEMPTS w =
           (Inl (err (length (sent w) + 1)),
            w\<lparr>sent := sent w @
                 replicate 2 (request_url this endpoint, request_config pf this options),
              waited := waited w + RETRY_DELAY\<rparr>)
         \<and> request pf this endpoint options w =
           (Inl (request_catch (err (length (sent w) + 1))),
            w\<lparr>sent := sent w @
                 replicate 2 (request_url this endpoint, request_config pf this options),
              waited := waited w + RETRY_DELAY\<rparr>)
         \<and> length (requests_issued w (snd (request pf this endpoint options w))) = 2"
proof -
  have raw: "\<And>k. withTimeout
      (fetch pf k (request_url this endpoint) (request_config pf this options))
      (request_timeout options) = Inl (err k)"
    using fails by (simp add: attempt_def)
  have two: "nat (max 1 RETRY_ATTEMPTS) = 2"
    by (simp add: RETRY_ATTEMPTS_def)
  have retry: "withRetry
      (timed_fetch pf (request_url this endpoint) (request_config pf this options)
         (request_timeout options))
      RETRY_ATTEMPTS w =
      (Inl (err (length (sent w) + 1)),
       w\<lparr>sent := sent w @
            replicate 2 (request_url this endpoint, request_config pf this options),
         waited := waited w + RETRY_DELAY\<rparr>)"
    unfolding withRetry_all_fail [of pf _ _ _ err, OF raw] two by simp
  have req: "request pf this endpoint options w =
      (Inl (request_catch (err (length (sent w) + 1))),
       w\<lparr>sent := sent w @
            replicate 2 (request_url this endpoint, request_config pf this options),
         waited := waited w + RETRY_DELAY\<rparr>)"
    by (simp add: request_def request_try_def retry)
  show ?thesis
    unfolding req using retry by (simp add: requests_issued_def)
qed

theorem request_fails_on_every_attempt_witness:
  "request (scripted [network_down, network_down, network_down]) (apiService True Ios)
     ''/symptoms''
     \<lparr>opt_method = Some GET, opt_headers = None, opt_body = JUndefined, opt_timeout = None\<rparr>
     fresh_world =
     (Inl (Err Error ''Unable to connect to server. Please check your connection.''),
      \<lparr>sent =
         replicate 2
           (''http://localhost:5050/api/symptoms'',
            \<lparr>init_method = GET,
             init_headers =
               [(''Content-Type'', ''application/json''), (''Accept'', ''application/json'')],
             init_body = None\<rparr>),
       waited = 500\<rparr>)"
  using request_fails_on_every_attempt
    [of "scripted [network_down, network_down, network_down]" "apiService True Ios"
        "''/symptoms''"
        "\<lparr>opt_method = Some GET, opt_headers = None, opt_body = JUndefined, opt_timeout = None\<rparr>"
        "\<lambda>k. if k < 3 then Err TypeError ''Network request failed'' else Err Error ''Request timeout''"
        fresh_world, OF scripted_all_down]
  by (simp add: fresh_world_def request_catch_def starts_with_def request_url_def
      request_config_def spread_def apiService_def new_ApiService_def BASE_URL_def
      RETRY_DELAY_def)

section \<open>What is retried\<close>

text \<open>
  C2, as stated: a response with a non-success status would make the retry policy
  re-invoke the call, a \<^verbatim>\<open>POST\<close> included. It does not: \<^verbatim>\<open>withRetry\<close> wraps only the
  timed \<^verbatim>\<open>fetch\<close>, which is fulfilled by any response, and the status is looked at
  afterwards. Here the server answers the \<^verbatim>\<open>POST\<close> with 500 and would accept a second
  one, yet a single request is issued, nothing is waited for, and the HTTP error is
  thrown.
\<close>

theorem http_failure_retried_counterexample:
  "createSymptom
     (scripted [Settled (Inr (error_response 500 ''Internal error'')),
                Settled (Inr (json_response 201 created_migraine))])
     (apiService True Ios) migraine_payload fresh_world =
   (Inl (Err Error ''HTTP 500: Internal error''),
    \<lparr>sent =
       [(''http://localhost:5050/api/symptoms'',
         \<lparr>init_method = POST,
          init_headers =
            [(''Content-Type'', ''application/json''), (''Accept'', ''application/json'')],
          init_body = Some (compact_json migraine_payload)\<rparr>)],
     waited = 0\<rparr>)"
  by (simp add: createSymptom_def post_def request_eq example_defs call_defs Let_def
      read_response_def request_catch_def text_defs migraine_payload_def)

text \<open>
  C2, amended: the retry policy re-invokes the call when the timed \<^verbatim>\<open>fetch\<close> itself
  fails, by the timer or by a rejection of the transport, and only then. A response
  that arrives ends the retrying whatever its status: a response with a non-success
  status makes the call throw after exactly one request and no retry delay, while a
  failed first attempt is followed by a second request after the retry delay.
\<close>

theorem retry_only_when_fetch_fails:
  "(\<forall>response.
      attempt pf this endpoint options (length (sent w)) = Inr response \<longrightarrow>
      request pf this endpoint options w =
        (map_sum request_catch id (read_response response),
         w\<lparr>sent := sent w @ [(request_url this endpoint, request_config pf this options)]\<rparr>))
   \<and> (\<forall>response.
      attempt pf this endpoint options (length (sent w)) = Inr response \<and> \<not> ok response \<longrightarrow>
      (\<exists>error. fst (request pf this endpoint options w) = Inl error)
      \<and> length (requests_issued w (snd (request pf this endpoint options w))) = 1
      \<and> waited (snd (request pf this endpoint options w)) = waited w)
   \<and> (\<forall>error.
      attempt pf this endpoint options (length (sent w)) = Inl error \<longrightarrow>
      requests_issued w (snd (request pf this endpoint options w)) =
        replicate 2 (request_url this endpoint, request_config pf this options)
      \<and> waited (snd (request pf this endpoint options w)) = waited w + RETRY_DELAY)"
proof (intro conjI allI impI)
  fix response
  assume "attempt pf this endpoint options (length (sent w)) = Inr response"
  then show "request pf this endpoint options w =
        (map_sum request_catch id (read_response response),
         w\<lparr>sent := sent w @ [(request_url this endpoint, request_config pf this options)]\<rparr>)"
    by (simp add: request_eq Let_def)
next
  fix response
  assume a: "attempt pf this endpoint options (length (sent w)) = Inr response \<and> \<not> ok response"
  then have r: "request pf this endpoint options w =
        (map_sum request_catch id (read_response response),
         w\<lparr>sent := sent w @ [(request_url this endpoint, request_config pf this options)]\<rparr>)"
    by (simp add: request_eq Let_def)
  from a show "\<exists>error. fst (request pf this endpoint options w) = Inl error"
    unfolding r by (simp add: read_response_def split: sum.splits)
  show "length (requests_issued w (snd (request pf this endpoint options w))) = 1"
    unfolding r by (simp add: requests_issued_def)
  show "waited (snd (request pf this endpoint options w)) = waited w"
    unfolding r by simp
next
  fix error
  assume a: "attempt pf this endpoint options (length (sent w)) = Inl error"
  then show "requests_issued w (snd (request pf this endpoint options w)) =
        replicate 2 (request_url this endpoint, request_config pf this options)"
    by (simp add: request_eq Let_def requests_issued_def numeral_2_eq_2)
  from a show "waited (snd (request pf this endpoint options w)) = waited w + RETRY_DELAY"
    by (simp add: request_eq Let_def)
qed

theorem retry_only_when_fetch_fails_witness:
  "length (requests_issued fresh_world
     (snd (request
        (scripted [Settled (Inr (error_response 500 ''Internal error'')),
                   Settled (Inr (json_response 201 created_migraine))])
        (apiService True Ios) ''/symptoms''
        \<lparr>opt_method = Some POST, opt_headers = None, opt_body = migraine_payload,
         opt_timeout = None\<rparr>
        fresh_world))) = 1
   \<and> length (requests_issued fresh_world
     (snd (request (scripted [Timer_fired, Settled (Inr (json_response 200 (JArr [])))])
        (apiService True Ios) ''/symptoms''
        \<lparr>opt_method = Some GET, opt_headers = None, opt_body = JUndefined,
         opt_timeout = None\<rparr>
        fresh_world))) = 2"
proof -
  let ?refusing = "scripted [Settled (Inr (error_response 500 ''Internal error'')),
                   Settled (Inr (json_response 201 created_migraine))]"
  let ?slow = "scripted [Timer_fired, Settled (Inr (json_response 200 (JArr [])))]"
  let ?posting = "\<lparr>opt_method = Some POST, opt_headers = None, opt_body = migraine_payload,
         opt_timeout = None\<rparr>"
  let ?reading = "\<lparr>opt_method = Some GET, opt_headers = None, opt_body = JUndefined,
         opt_timeout = None\<rparr>"
  have refused: "attempt ?refusing (apiService True Ios) ''/symptoms'' ?posting
      (length (sent fresh_world)) = Inr (error_response 500 ''Internal error'')
      \<and> \<not> ok (error_response 500 ''Internal error'')"
    by (simp add: attempt_def withTimeout_def scripted_def fresh_world_def error_response_def)
  have timed_out: "attempt ?slow (apiService True Ios) ''/symptoms'' ?reading
      (length (sent fresh_world)) = Inl (Err Error ''Request timeout'')"
    by (simp add: attempt_def withTimeout_def scripted_def fresh_world_def)
  have once: "length (requests_issued fresh_world
      (snd (request ?refusing (apiService True Ios) ''/symptoms'' ?posting fresh_world))) = 1"
    using retry_only_when_fetch_fails
      [of ?refusing "apiService True Ios" "''/symptoms''" ?posting fresh_world] refused
    by blast
  have twice: "requests_issued fresh_world
      (snd (request ?slow (apiService True Ios) ''/symptoms'' ?reading fresh_world)) =
      replicate 2 (request_url (apiService True Ios) ''/symptoms'',
                   request_config ?slow (apiService True Ios) ?reading)"
    using retry_only_when_fetch_fails
      [of ?slow "apiService True Ios" "''/symptoms''" ?reading fresh_world] timed_out
    by blast
  show ?thesis
    unfolding twice using once by simp
qed

text \<open>
  C8: a call whose first attempt fails with a transient error (the timer fires first, or
  \<^verbatim>\<open>fetch\<close> rejects) and whose re-invocation, the one retry of the budget, brings a
  response that reads successfully resolves with the data of that later attempt, not
  with the earlier failure.
\<close>

theorem request_succeeds_on_retry:
  assumes first: "attempt pf this endpoint options (length (sent w)) = Inl error"
    and second: "attempt pf this endpoint options (Suc (length (sent w))) = Inr response"
    and good: "read_response response = Inr data"
  shows "request pf this endpoint options w =
           (Inr data,
            w\<lparr>sent := sent w @
                 replicate 2 (request_url this endpoint, request_config pf this options),
              waited := waited w + RETRY_DELAY\<rparr>)"
  using first second good by (simp add: request_eq Let_def numeral_2_eq_2)

theorem request_succeeds_on_retry_witness:
  "getSymptoms (scripted [Timer_fired, Settled (Inr (json_response 200 (JArr [created_migraine])))])
     (apiService True Ios) fresh_world =
   (Inr (JArr [created_migraine]),
    \<lparr>sent =
       replicate 2
         (''http://localhost:5050/api/symptoms'',
          \<lparr>init_method = GET,
           init_headers =
             [(''Content-Type'', ''application/json''), (''Accept'', ''application/json'')],
           init_body = None\<rparr>),
     waited = 500\<rparr>)"
proof -
  let ?slow = "scripted [Timer_fired, Settled (Inr (json_response 200 (JArr [created_migraine])))]"
  let ?reading = "\<lparr>opt_method = Some GET, opt_headers = None, opt_body = JUndefined,
         opt_timeout = None\<rparr>"
  have first: "attempt ?slow (apiService True Ios) ''/symptoms'' ?reading
      (length (sent fresh_world)) = Inl (Err Error ''Request timeout'')"
    by (simp add: attempt_def withTimeout_def scripted_def fresh_world_def)
  have second: "attempt ?slow (apiService True Ios) ''/symptoms'' ?reading
      (Suc (length (sent fresh_world))) = Inr (json_response 200 (JArr [created_migraine]))"
    by (simp add: attempt_def withTimeout_def scripted_def fresh_world_def)
  have good: "read_response (json_response 200 (JArr [created_migraine])) =
      Inr (JArr [created_migraine])"
    by (simp add: read_response_def json_response_def starts_with_def)
  show ?thesis
    unfolding getSymptoms_def get_def request_succeeds_on_retry [OF first second good]
    by (simp add: fresh_world_def request_url_def request_config_def spread_def
        apiService_def new_ApiService_def BASE_URL_def RETRY_DELAY_def)
qed

section \<open>Health check\<close>

text \<open>
  C7: \<^verbatim>\<open>healthCheck\<close> returns \<^verbatim>\<open>true\<close> whenever the underlying read of
  \<^verbatim>\<open>/symptoms\<close> succeeds, \<^verbatim>\<open>false\<close> whenever that read throws any error, and in every
  case it returns a boolean: it never propagates an error to its caller.
\<close>

theorem healthCheck_never_throws:
  "(\<forall>v w'. get pf this ''/symptoms'' w = (Inr v, w') \<longrightarrow>
        healthCheck pf this w = (Inr True, w'))
   \<and> (\<forall>error w'. get pf this ''/symptoms'' w = (Inl error, w') \<longrightarrow>
        healthCheck pf this w = (Inr False, w'))
   \<and> (\<exists>available w'. healthCheck pf this w = (Inr available, w'))"
  by (cases "get pf this ''/symptoms'' w"; cases "fst (get pf this ''/symptoms'' w)")
     (auto simp add: healthCheck_def)

theorem healthCheck_never_throws_witness:
  "healthCheck (scripted [Settled (Inr (json_response 200 (JArr [])))]) (apiService True Ios)
     fresh_world =
     (Inr True,
      \<lparr>sent =
         [(''http://localhost:5050/api/symptoms'',
           \<lparr>init_method = GET,
            init_headers =
              [(''Content-Type'', ''application/json''), (''Accept'', ''application/json'')],
            init_body = None\<rparr>)],
       waited = 0\<rparr>)
   \<and> fst (healthCheck (scripted [network_down, network_down]) (apiService True Ios)
       fresh_world) = Inr False"
proof -
  let ?up = "scripted [Settled (Inr (json_response 200 (JArr [])))]"
  let ?down = "scripted [network_down, network_down]"
  let ?rq = "(''http://localhost:5050/api/symptoms'',
           \<lparr>init_method = GET,
            init_headers =
              [(''Content-Type'', ''application/json''), (''Accept'', ''application/json'')],
            init_body = None\<rparr>)"
  have reads: "get ?up (apiService True Ios) ''/symptoms'' fresh_world =
      (Inr (JArr []), \<lparr>sent = [?rq], waited = 0\<rparr>)"
    by (simp add: get_def request_eq Let_def example_defs call_defs read_response_def
        starts_with_def)
  have throws: "get ?down (apiService True Ios) ''/symptoms'' fresh_world =
      (Inl (Err Error ''Unable to connect to server. Please check your connection.''),
       \<lparr>sent = [?rq, ?rq], waited = 500\<rparr>)"
    by (simp add: get_def request_eq Let_def example_defs call_defs request_catch_def
        starts_with_def RETRY_DELAY_def)
  have up: "healthCheck ?up (apiService True Ios) fresh_world =
      (Inr True, \<lparr>sent = [?rq], waited = 0\<rparr>)"
    using healthCheck_never_throws [of ?up "apiService True Ios" fresh_world] reads
    by blast
  have down: "healthCheck ?down (apiService True Ios) fresh_world =
      (Inr False, \<lparr>sent = [?rq, ?rq], waited = 500\<rparr>)"
    using healthCheck_never_throws [of ?down "apiService True Ios" fresh_world] throws
    by blast
  show ?thesis
    unfolding up down by simp
qed

section \<open>Request bodies of create and update calls\<close>

lemma spread_nothing: "spread base [] = base"
  by (simp add: spread_def)

lemma request_issues:
  "set (requests_issued w (snd (request pf this endpoint options w))) =
     {(request_url this endpoint, request_config pf this options)}"
  by (simp add: request_eq Let_def requests_issued_def split: sum.splits)

lemma post_issues:
  "set (requests_issued w (snd (post pf this path (JObj ps) w))) =
     {expected_request pf this POST path (JObj ps)}"
  by (simp add: post_def request_issues expected_request_def request_url_def
      request_config_def spread_nothing)

lemma put_issues:
  "set (requests_issued w (snd (put pf this path (JObj ps) w))) =
     {expected_request pf this PUT path (JObj ps)}"
  by (simp add: put_def request_issues expected_request_def request_url_def
      request_config_def spread_nothing)

lemma request_resolves_json:
  assumes "attempt pf this endpoint options (length (sent w)) = Inr response"
    and "ok response"
    and "content_type response = Some contentType"
    and "str_includes contentType ''application/json''"
    and "body_json response = Inr data"
  shows "fst (request pf this endpoint options w) = Inr data"
proof -
  have "contentType \<noteq> []"
    using assms(4) by auto
  then have "read_response response = Inr data"
    using assms by (simp add: read_response_def)
  then show ?thesis
    using assms(1) by (simp add: request_eq Let_def)
qed

text \<open>
  C6: every create or update call hands \<^verbatim>\<open>fetch\<close> one and the same request on each
  attempt, and its body is the JSON serialization of the typed input (an object), with
  nothing added or omitted: \<^verbatim>\<open>POST\<close> for a create, \<^verbatim>\<open>PUT\<close> with the id in the path for
  an update. \<^verbatim>\<open>createSymptom\<close> in particular issues \<^verbatim>\<open>POST /symptoms\<close> with that body and,
  when the server answers with a successful JSON response, resolves to the object
  the server returned, whatever id it assigned.
\<close>

theorem create_update_body_is_serialized_input:
  "set (requests_issued w (snd (createSymptom pf this (JObj ps) w))) =
     {expected_request pf this POST ''/symptoms'' (JObj ps)}
   \<and> set (requests_issued w (snd (updateSymptom pf this ident (JObj ps) w))) =
     {expected_request pf this PUT (''/symptoms/'' @ number_text ident) (JObj ps)}
   \<and> set (requests_issued w (snd (createMedication pf this (JObj ps) w))) =
     {expected_request pf this POST ''/Medication'' (JObj ps)}
   \<and> set (requests_issued w (snd (updateMedication pf this ident (JObj ps) w))) =
     {expected_request pf this PUT (''/Medication/'' @ number_text ident) (JObj ps)}
   \<and> set (requests_issued w (snd (createStage pf this (JObj ps) w))) =
     {expected_request pf this POST ''/stages'' (JObj ps)}
   \<and> set (requests_issued w (snd (updateStage pf this ident (JObj ps) w))) =
     {expected_request pf this PUT (''/stages/'' @ number_text ident) (JObj ps)}
   \<and> set (requests_issued w (snd (createIntake pf this (JObj ps) w))) =
     {expected_request pf this POST ''/intakes'' (JObj ps)}
   \<and> set (requests_issued w (snd (updateIntake pf this ident (JObj ps) w))) =
     {expected_request pf this PUT (''/intakes/'' @ number_text ident) (JObj ps)}
   \<and> (\<forall>response contentType data.
        attempt pf this ''/symptoms''
          \<lparr>opt_method = Some POST, opt_headers = None, opt_body = JObj ps, opt_timeout = None\<rparr>
          (length (sent w)) = Inr response
        \<and> ok response
        \<and> content_type response = Some contentType
        \<and> str_includes contentType ''application/json''
        \<and> body_json response = Inr data \<longrightarrow>
        fst (createSymptom pf this (JObj ps) w) = Inr data)"
proof -
  have resolves: "\<forall>response contentType data.
        attempt pf this ''/symptoms''
          \<lparr>opt_method = Some POST, opt_headers = None, opt_body = JObj ps, opt_timeout = None\<rparr>
          (length (sent w)) = Inr response
        \<and> ok response
        \<and> content_type response = Some contentType
        \<and> str_includes contentType ''application/json''
        \<and> body_json response = Inr data \<longrightarrow>
        fst (createSymptom pf this (JObj ps) w) = Inr data"
    unfolding createSymptom_def post_def using request_resolves_json by blast
  show ?thesis
    unfolding createSymptom_def updateSymptom_def createMedication_def updateMedication_def
      createStage_def updateStage_def createIntake_def updateIntake_def post_issues put_issues
    using resolves unfolding createSymptom_def by simp
qed

theorem create_update_body_is_serialized_input_witness:
  \<open>fst (createSymptom (scripted [Settled (Inr (json_response 201 created_migraine))])
          (apiService True Ios) migraine_payload fresh_world) = Inr created_migraine
   \<and> set (requests_issued fresh_world
        (snd (createSymptom (scripted [Settled (Inr (json_response 201 created_migraine))])
                (apiService True Ios) migraine_payload fresh_world))) =
      {(''http://localhost:5050/api/symptoms'',
        \<lparr>init_method = POST,
         init_headers =
           [(''Content-Type'', ''application/json''), (''Accept'', ''application/json'')],
         init_body =
           Some ''{"name":"Migraine","isActive":true,"stages":[{"name":"Severe","medication":[{"name":"Ibuprofen","quantityMg":400,"intervalHours":8,"totalDays":5}]}]}''\<rparr>)}\<close>
proof -
  let ?accepting = "scripted [Settled (Inr (json_response 201 created_migraine))]"
  obtain ps where payload: "migraine_payload = JObj ps"
    by (simp add: migraine_payload_def)
  have arrives: "attempt ?accepting (apiService True Ios) ''/symptoms''
      \<lparr>opt_method = Some POST, opt_headers = None, opt_body = JObj ps, opt_timeout = None\<rparr>
      (length (sent fresh_world)) = Inr (json_response 201 created_migraine)
      \<and> ok (json_response 201 created_migraine)
      \<and> content_type (json_response 201 created_migraine) =
          Some ''application/json; charset=utf-8''
      \<and> str_includes ''application/json; charset=utf-8'' ''application/json''
      \<and> body_json (json_response 201 created_migraine) = Inr created_migraine"
    by (simp add: attempt_def withTimeout_def scripted_def fresh_world_def json_response_def
        starts_with_def)
  have resolved: "fst (createSymptom ?accepting (apiService True Ios) (JObj ps) fresh_world) =
      Inr created_migraine"
    using create_update_body_is_serialized_input
      [of fresh_world ?accepting "apiService True Ios" ps] arrives
    by blast
  have issued: "set (requests_issued fresh_world
      (snd (createSymptom ?accepting (apiService True Ios) (JObj ps) fresh_world))) =
      {expected_request ?accepting (apiService True Ios) POST ''/symptoms'' (JObj ps)}"
    using create_update_body_is_serialized_input
      [of fresh_world ?accepting "apiService True Ios" ps]
    by blast
  have body: \<open>compact_json migraine_payload =
      ''{"name":"Migraine","isActive":true,"stages":[{"name":"Severe","medication":[{"name":"Ibuprofen","quantityMg":400,"intervalHours":8,"totalDays":5}]}]}''\<close>
    by (simp add: migraine_payload_def migraine_fields_def json_string_def quote_char_def
        text_defs)
  show ?thesis
    unfolding payload resolved issued
    using body unfolding payload
    by (simp add: expected_request_def scripted_def apiService_def new_ApiService_def
        BASE_URL_def)
qed

section \<open>Responses without a JSON body\<close>

lemma delete_issues:
  "set (requests_issued w (snd (delete pf this path w))) =
     {(baseURL this @ path,
       \<lparr>init_method = DELETE, init_headers = defaultHeaders this, init_body = None\<rparr>)}"
  by (simp add: delete_def request_issues request_url_def request_config_def spread_nothing)

lemma read_response_non_json:
  assumes "ok response"
    and "case content_type response of
           None \<Rightarrow> True
         | Some contentType \<Rightarrow> \<not> str_includes contentType ''application/json''"
  shows "read_response response = Inr (JObj [])"
  using assms by (simp add: read_response_def split: option.splits)

text \<open>
  C4: whenever the response a call receives is successful and its content type is
  absent or is not JSON (the header does not contain \<^verbatim>\<open>application/json\<close>, which is the
  test the code applies), the call resolves to the empty object, which is neither
  \<^verbatim>\<open>null\<close> nor \<^verbatim>\<open>undefined\<close>. \<^verbatim>\<open>deleteMedication(42)\<close> issues \<^verbatim>\<open>DELETE /Medication/42\<close>
  without a body, and an empty 204 response to it resolves to \<^verbatim>\<open>{}\<close>.
\<close>

theorem non_json_success_resolves_to_empty_object:
  "(\<forall>response w'.
      withRetry
        (timed_fetch pf (request_url this endpoint) (request_config pf this options)
           (request_timeout options))
        RETRY_ATTEMPTS w = (Inr response, w')
      \<and> ok response
      \<and> (case content_type response of
            None \<Rightarrow> True
          | Some contentType \<Rightarrow> \<not> str_includes contentType ''application/json'') \<longrightarrow>
      request pf this endpoint options w = (Inr (JObj []), w'))
   \<and> JObj [] \<noteq> JNull \<and> JObj [] \<noteq> JUndefined
   \<and> set (requests_issued w (snd (deleteMedication pf this 42 w))) =
       {(baseURL this @ ''/Medication/42'',
         \<lparr>init_method = DELETE, init_headers = defaultHeaders this, init_body = None\<rparr>)}
   \<and> (attempt pf this ''/Medication/42''
         \<lparr>opt_method = Some DELETE, opt_headers = None, opt_body = JUndefined,
          opt_timeout = None\<rparr>
         (length (sent w)) = Inr no_content_response \<longrightarrow>
       fst (deleteMedication pf this 42 w) = Inr (JObj []))"
proof (intro conjI allI impI)
  fix response w'
  assume a: "withRetry
        (timed_fetch pf (request_url this endpoint) (request_config pf this options)
           (request_timeout options))
        RETRY_ATTEMPTS w = (Inr response, w')
      \<and> ok response
      \<and> (case content_type response of
            None \<Rightarrow> True
          | Some contentType \<Rightarrow> \<not> str_includes contentType ''application/json'')"
  then have "read_response response = Inr (JObj [])"
    by (simp add: read_response_non_json)
  with a show "request pf this endpoint options w = (Inr (JObj []), w')"
    by (simp add: request_def request_try_def)
next
  show "JObj [] \<noteq> JNull" by simp
  show "JObj [] \<noteq> JUndefined" by simp
next
  have path: "''/Medication/'' @ number_text 42 = ''/Medication/42''"
    by (simp add: text_defs)
  show "set (requests_issued w (snd (deleteMedication pf this 42 w))) =
       {(baseURL this @ ''/Medication/42'',
         \<lparr>init_method = DELETE, init_headers = defaultHeaders this, init_body = None\<rparr>)}"
    unfolding deleteMedication_def path by (rule delete_issues)
  assume "attempt pf this ''/Medication/42''
         \<lparr>opt_method = Some DELETE, opt_headers = None, opt_body = JUndefined,
          opt_timeout = None\<rparr>
         (length (sent w)) = Inr no_content_response"
  then show "fst (deleteMedication pf this 42 w) = Inr (JObj [])"
    unfolding deleteMedication_def path delete_def
    by (simp add: request_eq Let_def read_response_def no_content_response_def)
qed

theorem non_json_success_resolves_to_empty_object_witness:
  "deleteMedication (scripted [Settled (Inr no_content_response)]) (apiService True Ios) 42
     fresh_world =
   (Inr (JObj []),
    \<lparr>sent =
       [(''http://localhost:5050/api/Medication/42'',
         \<lparr>init_method = DELETE,
          init_headers =
            [(''Content-Type'', ''application/json''), (''Accept'', ''application/json'')],
          init_body = None\<rparr>)],
     waited = 0\<rparr>)"
proof -
  let ?server = "scripted [Settled (Inr no_content_response)]"
  let ?deleting = "\<lparr>opt_method = Some DELETE, opt_headers = None, opt_body = JUndefined,
          opt_timeout = None\<rparr>"
  let ?after = "\<lparr>sent =
       [(''http://localhost:5050/api/Medication/42'',
         \<lparr>init_method = DELETE,
          init_headers =
            [(''Content-Type'', ''application/json''), (''Accept'', ''application/json'')],
          init_body = None\<rparr>)],
     waited = 0\<rparr>"
  have received: "withRetry
        (timed_fetch ?server (request_url (apiService True Ios) ''/Medication/42'')
           (request_config ?server (apiService True Ios) ?deleting)
           (request_timeout ?deleting))
        RETRY_ATTEMPTS fresh_world = (Inr no_content_response, ?after)
      \<and> ok no_content_response
      \<and> (case content_type no_content_response of
            None \<Rightarrow> True
          | Some contentType \<Rightarrow> \<not> str_includes contentType ''application/json'')"
    by (simp add: withRetry_default example_defs call_defs)
  have "request ?server (apiService True Ios) ''/Medication/42'' ?deleting fresh_world =
      (Inr (JObj []), ?after)"
    using non_json_success_resolves_to_empty_object
      [of ?server "apiService True Ios" "''/Medication/42''" ?deleting fresh_world] received
    by blast
  then show ?thesis
    by (simp add: deleteMedication_def delete_def text_defs)
qed

section \<open>Errors thrown by request\<close>

lemma str_includes_append:
  "str_includes t p \<Longrightarrow> str_includes (pre @ t) p"
proof -
  assume "str_includes t p"
  then obtain a b where "t = a @ p @ b"
    by (auto simp: str_includes_iff)
  then have "pre @ t = (pre @ a) @ p @ b"
    by simp
  then show ?thesis
    unfolding str_includes_iff by blast
qed

lemma request_catch_network:
  "instanceof_TypeError error \<Longrightarrow> str_includes (message error) ''Network request failed'' \<Longrightarrow>
   request_catch error = Err Error ''Unable to connect to server. Please check your connection.''"
  by (simp add: request_catch_def)

lemma request_catch_timeout:
  "\<not> (instanceof_TypeError error \<and> str_includes (message error) ''Network request failed'') \<Longrightarrow>
   instanceof_Error error \<Longrightarrow> str_includes (message error) ''timeout'' \<Longrightarrow>
   request_catch error = Err Error ''Request timed out. Please try again.''"
  by (auto simp add: request_catch_def)

lemma request_catch_other:
  "\<not> (instanceof_TypeError error \<and> str_includes (message error) ''Network request failed'') \<Longrightarrow>
   \<not> (instanceof_Error error \<and> str_includes (message error) ''timeout'') \<Longrightarrow>
   request_catch error = error"
  by (auto simp add: request_catch_def)

lemma request_catch_timer:
  "request_catch (Err Error ''Request timeout'') = Err Error ''Request timed out. Please try again.''"
  by (simp add: request_catch_def starts_with_def)

lemma http_failure_surfaced:
  assumes "withRetry
        (timed_fetch pf (request_url this endpoint) (request_config pf this options)
           (request_timeout options))
        RETRY_ATTEMPTS w = (Inr response, w')"
    and "\<not> ok response"
    and "body_text response = Inr errorText"
    and "\<not> str_includes
           (''HTTP '' @ number_text (status response) @ '': '' @
              (if errorText = [] then statusText response else errorText)) ''timeout''"
  shows "request pf this endpoint options w =
           (Inl (Err Error
              (''HTTP '' @ number_text (status response) @ '': '' @
                 (if errorText = [] then statusText response else errorText))), w')"
  using assms by (simp add: request_def request_try_def read_response_def request_catch_def)

lemma symptom_not_found_scenario:
  "getSymptom (scripted [Settled (Inr (error_response 404 ''Symptom not found''))])
     (apiService True Ios) 999 fresh_world =
   (Inl (Err Error ''HTTP 404: Symptom not found''),
    \<lparr>sent =
       [(''http://localhost:5050/api/symptoms/999'',
         \<lparr>init_method = GET,
          init_headers =
            [(''Content-Type'', ''application/json''), (''Accept'', ''application/json'')],
          init_body = None\<rparr>)],
     waited = 0\<rparr>)"
  by (simp add: getSymptom_def get_def request_eq Let_def example_defs call_defs
      read_response_def request_catch_def text_defs)

text \<open>
  C5 holds wherever the message built from the status and the body does not contain
  \<^verbatim>\<open>timeout\<close> (\<open>http_failure_surfaced\<close>, and the 404 scenario above). It fails on the
  code otherwise: the error \<^verbatim>\<open>HTTP 504: Gateway timeout\<close> is thrown inside the \<^verbatim>\<open>try\<close>
  block, caught by the same \<^verbatim>\<open>catch\<close> block that looks for timer errors, and replaced.
  What \<^verbatim>\<open>getSymptom(999)\<close> throws for a 504 response with the body
  \<^verbatim>\<open>Gateway timeout\<close> contains neither the status code nor the body text.
\<close>

theorem gateway_timeout_status_and_body_lost:
  "getSymptom (scripted [Settled (Inr (error_response 504 ''Gateway timeout''))])
     (apiService True Ios) 999 fresh_world =
   (Inl (Err Error ''Request timed out. Please try again.''),
    \<lparr>sent =
       [(''http://localhost:5050/api/symptoms/999'',
         \<lparr>init_method = GET,
          init_headers =
            [(''Content-Type'', ''application/json''), (''Accept'', ''application/json'')],
          init_body = None\<rparr>)],
     waited = 0\<rparr>)
   \<and> str_includes ''Request timed out. Please try again.'' ''504'' = False
   \<and> str_includes ''Request timed out. Please try again.'' ''Gateway timeout'' = False"
  by (simp add: getSymptom_def get_def request_eq Let_def example_defs call_defs
      read_response_def request_catch_def text_defs)

text \<open>
  What the \<^verbatim>\<open>catch\<close> block does with the errors of the transport, at the level of
  \<^verbatim>\<open>request\<close>: a \<^verbatim>\<open>TypeError\<close> whose message contains \<^verbatim>\<open>Network request failed\<close>, the shape
  of an unreachable network, becomes the "unable to connect to server" error; the raw
  timer error becomes the "request timed out" error, so a call whose every attempt
  loses the race against the timer fails with that message; and an error that is not
  such a \<^verbatim>\<open>TypeError\<close> and whose message does not contain \<^verbatim>\<open>timeout\<close> is propagated
  unchanged.
\<close>

lemma request_catch_rewrites_by_message:
  "(\<forall>error w'.
      request_try pf this endpoint options w = (Inl error, w')
      \<and> instanceof_TypeError error
      \<and> str_includes (message error) ''Network request failed'' \<longrightarrow>
      request pf this endpoint options w =
        (Inl (Err Error ''Unable to connect to server. Please check your connection.''), w'))
   \<and> (\<forall>w'.
      request_try pf this endpoint options w = (Inl (Err Error ''Request timeout''), w') \<longrightarrow>
      request pf this endpoint options w =
        (Inl (Err Error ''Request timed out. Please try again.''), w'))
   \<and> ((\<forall>k. fetch pf k (request_url this endpoint) (request_config pf this options)
              (request_timeout options) = Timer_fired) \<longrightarrow>
      fst (request pf this endpoint options w) =
        Inl (Err Error ''Request timed out. Please try again.''))
   \<and> (\<forall>error w'.
      request_try pf this endpoint options w = (Inl error, w')
      \<and> \<not> (instanceof_TypeError error
             \<and> str_includes (message error) ''Network request failed'')
      \<and> \<not> str_includes (message error) ''timeout'' \<longrightarrow>
      request pf this endpoint options w = (Inl error, w'))"
proof (intro conjI allI impI)
  fix error w'
  assume "request_try pf this endpoint options w = (Inl error, w')
      \<and> instanceof_TypeError error
      \<and> str_includes (message error) ''Network request failed''"
  then show "request pf this endpoint options w =
        (Inl (Err Error ''Unable to connect to server. Please check your connection.''), w')"
    by (simp add: request_def request_catch_network)
next
  fix w'
  assume "request_try pf this endpoint options w = (Inl (Err Error ''Request timeout''), w')"
  then show "request pf this endpoint options w =
        (Inl (Err Error ''Request timed out. Please try again.''), w')"
    by (simp add: request_def request_catch_timer)
next
  assume "\<forall>k. fetch pf k (request_url this endpoint) (request_config pf this options)
              (request_timeout options) = Timer_fired"
  then have "\<And>k. attempt pf this endpoint options k = Inl (Err Error ''Request timeout'')"
    by (simp add: attempt_def withTimeout_def)
  then show "fst (request pf this endpoint options w) =
        Inl (Err Error ''Request timed out. Please try again.'')"
    by (simp add: request_eq Let_def request_catch_timer)
next
  fix error w'
  assume "request_try pf this endpoint options w = (Inl error, w')
      \<and> \<not> (instanceof_TypeError error
             \<and> str_includes (message error) ''Network request failed'')
      \<and> \<not> str_includes (message error) ''timeout''"
  then show "request pf this endpoint options w = (Inl error, w')"
    by (simp add: request_def request_catch_other)
qed

lemma request_catch_rewrites_by_message_examples:
  "request (scripted [network_down, network_down]) (apiService True Ios) ''/symptoms''
     \<lparr>opt_method = Some GET, opt_headers = None, opt_body = JUndefined, opt_timeout = None\<rparr>
     fresh_world =
     (Inl (Err Error ''Unable to connect to server. Please check your connection.''),
      snd (request_try (scripted [network_down, network_down]) (apiService True Ios)
             ''/symptoms''
             \<lparr>opt_method = Some GET, opt_headers = None, opt_body = JUndefined,
              opt_timeout = None\<rparr>
             fresh_world))
   \<and> fst (request (scripted []) (apiService True Ios) ''/symptoms''
       \<lparr>opt_method = Some GET, opt_headers = None, opt_body = JUndefined, opt_timeout = None\<rparr>
       fresh_world) = Inl (Err Error ''Request timed out. Please try again.'')
   \<and> fst (request (scripted [Settled (Inr (error_response 404 ''Symptom not found''))])
       (apiService True Ios) ''/symptoms/999''
       \<lparr>opt_method = Some GET, opt_headers = None, opt_body = JUndefined, opt_timeout = None\<rparr>
       fresh_world) = Inl (Err Error ''HTTP 404: Symptom not found'')"
proof -
  let ?reading = "\<lparr>opt_method = Some GET, opt_headers = None, opt_body = JUndefined,
      opt_timeout = None\<rparr>"
  let ?down = "scripted [network_down, network_down]"
  let ?missing = "scripted [Settled (Inr (error_response 404 ''Symptom not found''))]"
  obtain w1 where unreachable:
    "request_try ?down (apiService True Ios) ''/symptoms'' ?reading fresh_world =
       (Inl (Err TypeError ''Network request failed''), w1)"
    by (simp add: request_try_def withRetry_default Let_def example_defs call_defs)
  have shape: "instanceof_TypeError (Err TypeError ''Network request failed'')
      \<and> str_includes (message (Err TypeError ''Network request failed''))
            ''Network request failed''"
    by (simp add: starts_with_def)
  have one: "request ?down (apiService True Ios) ''/symptoms'' ?reading fresh_world =
      (Inl (Err Error ''Unable to connect to server. Please check your connection.''), w1)"
    using request_catch_rewrites_by_message
      [of ?down "apiService True Ios" "''/symptoms''" ?reading fresh_world]
      unreachable shape
    by blast
  have silent: "\<forall>k. fetch (scripted []) k (request_url (apiService True Ios) ''/symptoms'')
      (request_config (scripted []) (apiService True Ios) ?reading)
      (request_timeout ?reading) = Timer_fired"
    by (simp add: scripted_def)
  have two: "fst (request (scripted []) (apiService True Ios) ''/symptoms'' ?reading
      fresh_world) = Inl (Err Error ''Request timed out. Please try again.'')"
    using request_catch_rewrites_by_message
      [of "scripted []" "apiService True Ios" "''/symptoms''" ?reading fresh_world] silent
    by blast
  obtain w3 where refused:
    "request_try ?missing (apiService True Ios) ''/symptoms/999'' ?reading fresh_world =
       (Inl (Err Error ''HTTP 404: Symptom not found''), w3)"
    by (simp add: request_try_def withRetry_default Let_def example_defs call_defs
        read_response_def text_defs)
  have plain: "\<not> (instanceof_TypeError (Err Error ''HTTP 404: Symptom not found'')
        \<and> str_includes (message (Err Error ''HTTP 404: Symptom not found''))
             ''Network request failed'')
      \<and> \<not> str_includes (message (Err Error ''HTTP 404: Symptom not found'')) ''timeout''"
    by (simp add: starts_with_def)
  have three: "request ?missing (apiService True Ios) ''/symptoms/999'' ?reading fresh_world =
      (Inl (Err Error ''HTTP 404: Symptom not found''), w3)"
    using request_catch_rewrites_by_message
      [of ?missing "apiService True Ios" "''/symptoms/999''" ?reading fresh_world]
      refused plain
    by blast
  show ?thesis
    unfolding one two three using unreachable by simp
qed

text \<open>
  C3 holds for the two transport failures and for every error whose message does not
  contain \<^verbatim>\<open>timeout\<close> (\<open>request_catch_rewrites_by_message\<close>). It fails on the code for
  an HTTP failure whose body text contains \<^verbatim>\<open>timeout\<close>: that error is neither a
  network-unreachable failure nor a timeout, the \<^verbatim>\<open>try\<close> block raises it with the status
  and the body, as for any other HTTP failure, and the \<^verbatim>\<open>catch\<close> block around the same
  \<^verbatim>\<open>try\<close> replaces it instead of propagating it unchanged. For a 503 response with the
  body \<^verbatim>\<open>upstream timeout\<close> the error raised is not the error the caller gets.
\<close>

theorem http_failure_not_propagated_unchanged:
  "request_try (scripted [Settled (Inr (error_response 503 ''upstream timeout''))])
     (apiService True Ios) ''/symptoms''
     \<lparr>opt_method = Some GET, opt_headers = None, opt_body = JUndefined, opt_timeout = None\<rparr>
     fresh_world =
   (Inl (Err Error ''HTTP 503: upstream timeout''),
    \<lparr>sent =
       [(''http://localhost:5050/api/symptoms'',
         \<lparr>init_method = GET,
          init_headers =
            [(''Content-Type'', ''application/json''), (''Accept'', ''application/json'')],
          init_body = None\<rparr>)],
     waited = 0\<rparr>)
   \<and> fst (getSymptoms (scripted [Settled (Inr (error_response 503 ''upstream timeout''))])
          (apiService True Ios) fresh_world) =
       Inl (Err Error ''Request timed out. Please try again.'')"
  by (simp add: getSymptoms_def get_def request_def request_try_def withRetry_default
      Let_def example_defs call_defs read_response_def request_catch_def text_defs)

text \<open>
  C10, as stated: any \<^verbatim>\<open>Error\<close> whose message contains \<^verbatim>\<open>timeout\<close> would be replaced by
  the "request timed out" error. The check for an unreachable network comes first in
  the \<^verbatim>\<open>catch\<close> block, so a \<^verbatim>\<open>TypeError\<close> whose message contains both
  \<^verbatim>\<open>Network request failed\<close> and \<^verbatim>\<open>timeout\<close> becomes the "unable to connect" error
  instead.
\<close>

theorem timeout_substring_counterexample:
  "instanceof_Error (Err TypeError ''Network request failed: timeout'')
   \<and> str_includes (message (Err TypeError ''Network request failed: timeout'')) ''timeout''
   \<and> fst (getSymptoms
        (scripted [Settled (Inl (Err TypeError ''Network request failed: timeout'')),
                   Settled (Inl (Err TypeError ''Network request failed: timeout''))])
        (apiService True Ios) fresh_world) =
      Inl (Err Error ''Unable to connect to server. Please check your connection.'')"
  by (simp add: getSymptoms_def get_def request_eq Let_def example_defs call_defs
      request_catch_def starts_with_def)

text \<open>
  C10, amended: a caught error is classified as a timeout by a substring match on its
  message. Any \<^verbatim>\<open>Error\<close> whose message contains \<^verbatim>\<open>timeout\<close>, unless it is a \<^verbatim>\<open>TypeError\<close>
  whose message also contains \<^verbatim>\<open>Network request failed\<close>, is replaced by the generic
  "Request timed out. Please try again." error. That includes the HTTP-failure error of
  a response whose body text contains \<^verbatim>\<open>timeout\<close>: the \<^verbatim>\<open>try\<close> block raises
  \<^verbatim>\<open>HTTP <status>: <body>\<close> and the caller gets the generic error, without the status
  code and the body text.
\<close>

theorem timeout_classified_by_substring:
  "(\<forall>error.
      instanceof_Error error
      \<and> str_includes (message error) ''timeout''
      \<and> \<not> (instanceof_TypeError error
             \<and> str_includes (message error) ''Network request failed'') \<longrightarrow>
      request_catch error = Err Error ''Request timed out. Please try again.'')
   \<and> (\<forall>response w' errorText.
      withRetry
        (timed_fetch pf (request_url this endpoint) (request_config pf this options)
           (request_timeout options))
        RETRY_ATTEMPTS w = (Inr response, w')
      \<and> \<not> ok response
      \<and> body_text response = Inr errorText
      \<and> str_includes errorText ''timeout'' \<longrightarrow>
      request_try pf this endpoint options w =
        (Inl (Err Error (''HTTP '' @ number_text (status response) @ '': '' @ errorText)), w')
      \<and> request pf this endpoint options w =
        (Inl (Err Error ''Request timed out. Please try again.''), w'))"
proof (intro conjI allI impI)
  fix error
  assume "instanceof_Error error
      \<and> str_includes (message error) ''timeout''
      \<and> \<not> (instanceof_TypeError error
             \<and> str_includes (message error) ''Network request failed'')"
  then show "request_catch error = Err Error ''Request timed out. Please try again.''"
    by (simp add: request_catch_timeout)
next
  fix response w' errorText
  assume a: "withRetry
        (timed_fetch pf (request_url this endpoint) (request_config pf this options)
           (request_timeout options))
        RETRY_ATTEMPTS w = (Inr response, w')
      \<and> \<not> ok response
      \<and> body_text response = Inr errorText
      \<and> str_includes errorText ''timeout''"
  then have nonempty: "errorText \<noteq> []"
    by auto
  with a show tried: "request_try pf this endpoint options w =
        (Inl (Err Error (''HTTP '' @ number_text (status response) @ '': '' @ errorText)), w')"
    by (simp add: request_try_def read_response_def)
  have "str_includes ((''HTTP '' @ number_text (status response) @ '': '') @ errorText)
      ''timeout''"
    using a by (simp only: str_includes_append)
  then have "request_catch
      (Err Error (''HTTP '' @ number_text (status response) @ '': '' @ errorText)) =
      Err Error ''Request timed out. Please try again.''"
    by (simp add: request_catch_timeout)
  then show "request pf this endpoint options w =
        (Inl (Err Error ''Request timed out. Please try again.''), w')"
    by (simp add: request_def tried)
qed

theorem timeout_classified_by_substring_witness:
  "request (scripted [Settled (Inr (error_response 504 ''Gateway timeout''))])
     (apiService True Ios) ''/symptoms''
     \<lparr>opt_method = Some GET, opt_headers = None, opt_body = JUndefined, opt_timeout = None\<rparr>
     fresh_world =
   (Inl (Err Error ''Request timed out. Please try again.''),
    \<lparr>sent =
       [(''http://localhost:5050/api/symptoms'',
         \<lparr>init_method = GET,
          init_headers =
            [(''Content-Type'', ''application/json''), (''Accept'', ''application/json'')],
          init_body = None\<rparr>)],
     waited = 0\<rparr>)
   \<and> request_catch (Err Error ''HTTP 504: Gateway timeout'') =
       Err Error ''Request timed out. Please try again.''"
proof -
  let ?gateway = "scripted [Settled (Inr (error_response 504 ''Gateway timeout''))]"
  let ?reading = "\<lparr>opt_method = Some GET, opt_headers = None, opt_body = JUndefined,
      opt_timeout = None\<rparr>"
  let ?after = "\<lparr>sent =
       [(''http://localhost:5050/api/symptoms'',
         \<lparr>init_method = GET,
          init_headers =
            [(''Content-Type'', ''application/json''), (''Accept'', ''application/json'')],
          init_body = None\<rparr>)],
     waited = 0\<rparr>"
  have received: "withRetry
        (timed_fetch ?gateway (request_url (apiService True Ios) ''/symptoms'')
           (request_config ?gateway (apiService True Ios) ?reading)
           (request_timeout ?reading))
        RETRY_ATTEMPTS fresh_world = (Inr (error_response 504 ''Gateway timeout''), ?after)
      \<and> \<not> ok (error_response 504 ''Gateway timeout'')
      \<and> body_text (error_response 504 ''Gateway timeout'') = Inr ''Gateway timeout''
      \<and> str_includes ''Gateway timeout'' ''timeout''"
    by (simp add: withRetry_default example_defs call_defs starts_with_def)
  have whole: "request ?gateway (apiService True Ios) ''/symptoms'' ?reading fresh_world =
      (Inl (Err Error ''Request timed out. Please try again.''), ?after)"
    using timeout_classified_by_substring
      [of ?gateway "apiService True Ios" "''/symptoms''" ?reading fresh_world] received
    by blast
  have shape: "instanceof_Error (Err Error ''HTTP 504: Gateway timeout'')
      \<and> str_includes (message (Err Error ''HTTP 504: Gateway timeout'')) ''timeout''
      \<and> \<not> (instanceof_TypeError (Err Error ''HTTP 504: Gateway timeout'')
             \<and> str_includes (message (Err Error ''HTTP 504: Gateway timeout''))
                  ''Network request failed'')"
    by (simp add: starts_with_def)
  have caught: "request_catch (Err Error ''HTTP 504: Gateway timeout'') =
      Err Error ''Request timed out. Please try again.''"
    using timeout_classified_by_substring
      [of ?gateway "apiService True Ios" "''/symptoms''" ?reading fresh_world] shape
    by blast
  show ?thesis
    using whole caught by simp
qed

section \<open>The toggle handler's rollback\<close>

lemma handleToggleActive_failed:
  assumes "find (\<lambda>s. symptom_id s = symptomId) (symptoms screen) = Some found"
    and "fst (updateSymptom pf this symptomId (js_of_Symptom (found\<lparr>isActive := value\<rparr>)) w) =
           Inl error"
  shows "symptoms (fst (handleToggleActive pf this screen symptomId value w)) =
           map (\<lambda>symptom. if symptom_id symptom = symptomId
                          then symptom\<lparr>isActive := \<not> value\<rparr> else symptom)
             (symptoms screen)"
  using assms
  by (cases "updateSymptom pf this symptomId (js_of_Symptom (found\<lparr>isActive := value\<rparr>)) w")
     (simp add: handleToggleActive_def Let_def)

lemma toggle_rollback_restores_changed_flag:
  assumes "find (\<lambda>s. symptom_id s = symptomId) (symptoms screen) = Some found"
    and "fst (updateSymptom pf this symptomId (js_of_Symptom (found\<lparr>isActive := value\<rparr>)) w) =
           Inl error"
    and "\<forall>s \<in> set (symptoms screen). symptom_id s = symptomId \<longrightarrow> isActive s = (\<not> value)"
  shows "symptoms (fst (handleToggleActive pf this screen symptomId value w)) = symptoms screen"
proof -
  have "map (\<lambda>symptom. if symptom_id symptom = symptomId
                          then symptom\<lparr>isActive := \<not> value\<rparr> else symptom)
             (symptoms screen) = symptoms screen"
    using assms(3) by (intro map_idI) auto
  then show ?thesis
    using handleToggleActive_failed [OF assms(1) assms(2)] by simp
qed

lemma toggle_rollback_keeps_other_symptoms:
  assumes "find (\<lambda>s. symptom_id s = symptomId) (symptoms screen) = Some found"
    and "fst (updateSymptom pf this symptomId (js_of_Symptom (found\<lparr>isActive := value\<rparr>)) w) =
           Inl error"
    and "i < length (symptoms screen)"
    and "symptom_id (symptoms screen ! i) \<noteq> symptomId"
  shows "symptoms (fst (handleToggleActive pf this screen symptomId value w)) ! i =
           symptoms screen ! i"
  using assms(3,4) unfolding handleToggleActive_failed [OF assms(1) assms(2)] by simp

text \<open>
  C9 holds when the toggle changes the flag (\<open>toggle_rollback_restores_changed_flag\<close>),
  and the other symptoms are always kept (\<open>toggle_rollback_keeps_other_symptoms\<close>). It
  fails on the code when the symptom already has the requested value: the rollback
  writes the negation of the requested value instead of the value the list had, so a
  symptom that was active, toggled to active, is shown inactive after the failed call.
\<close>

theorem toggle_rollback_flips_already_set_flag:
  "isActive active_migraine = True
   \<and> symptoms (fst (handleToggleActive (scripted [network_down, network_down])
        (apiService True Ios)
        \<lparr>symptoms = [active_migraine, resting_cough], alerts = []\<rparr> 1 True fresh_world)) =
      [active_migraine\<lparr>isActive := False\<rparr>, resting_cough]"
  by (simp add: handleToggleActive_def updateSymptom_def put_def request_eq Let_def
      active_migraine_def resting_cough_def example_defs attempt_def withTimeout_def)

end
